theory Spec2Isabelle
  imports Main "HOL-Library.AList"
begin

section \<open>Data model of \<open>backend/ai_generator.py\<close>\<close>

text \<open>
  Python values that the adapter passes through without looking inside them (tool
  declarations, tool arguments, tool results) and the values it stores in the
  configuration dictionary. A dictionary is an association list in insertion order;
  \<open>AList.update\<close> overwrites an existing key in place and appends a new key at the end,
  as assignment to a Python \<open>dict\<close> does.
\<close>

datatype pyval =
    PNone
  | PBool bool
  | PInt int
  | PStr string
  | PList "pyval list"
  | PDict "(string \<times> pyval) list"

type_synonym dict = "(string \<times> pyval) list"

text \<open>Truthiness of a Python value, as \<open>if v:\<close> tests it.\<close>

fun truthy :: "pyval \<Rightarrow> bool" where
  "truthy PNone = False"
| "truthy (PBool b) = b"
| "truthy (PInt i) = (i \<noteq> 0)"
| "truthy (PStr s) = (s \<noteq> [])"
| "truthy (PList xs) = (xs \<noteq> [])"
| "truthy (PDict d) = (d \<noteq> [])"

text \<open>
  Exceptions. \<open>IndexError\<close> is what \<open>candidates[0]\<close> raises on an empty list; \<open>Raised e\<close>
  is an exception object raised by a collaborator (the backend client or the tool
  manager). The file has no \<open>try\<close>, so every exception leaves the call unchanged.
\<close>

datatype exn = IndexError | Raised string

text \<open>
  A part of a backend response (an SDK \<open>Part\<close> object): the attributes the code reads.
  \<open>part_function_call p = None\<close> stands for a part whose \<open>function_call\<close> is \<open>None\<close>
  or missing, which line 124 treats alike. A string is a list of bytes.
\<close>

record function_call =
  fc_name :: string
  fc_args :: "dict option"

record part =
  part_text :: "string option"
  part_function_call :: "function_call option"

text \<open>
  The parts of a conversation turn that the adapter builds or forwards:
  \<open>{"text": s}\<close>, an SDK part of the model's answer, and
  \<open>{"function_response": {"name": n, "response": {"content": r}}}\<close>.
\<close>

datatype content_part =
    TextPart string
  | ModelPart part
  | FunctionResponse string pyval

record turn =
  role :: string
  parts :: "content_part list"

text \<open>A candidate: \<open>finish_reason\<close> and \<open>content.parts\<close>.\<close>

record candidate =
  finish_reason :: string
  content_parts :: "part list"

text \<open>
  The backend's response object. \<open>response_text\<close> is the SDK's \<open>text\<close> property, which
  is \<open>None\<close> when the response has no text to extract.
\<close>

record response =
  candidates :: "candidate list"
  response_text :: "string option"

text \<open>
  Dictionaries that are mutated live in a store and are referred to by address, so
  that two references to one object see each other's writes.
\<close>

type_synonym addr = nat

text \<open>The keyword dictionary \<open>api_params\<close> / \<open>final_params\<close>; it is local to one call.\<close>

record api_params =
  model :: string
  contents :: "turn list"
  config :: "addr option"

text \<open>
  What the backend receives from \<open>generate_content(**api_params)\<close>: the configuration
  dictionary as it is at the moment of the call.
\<close>

record request =
  req_model :: string
  req_contents :: "turn list"
  req_config :: "dict option"

text \<open>The calls made to the two collaborators, in order, each with its outcome.\<close>

datatype event =
    BackendCall request "exn + response"
  | ToolCall string dict "exn + pyval"

text \<open>
  The state that a call reads and writes: the store of dictionaries (an address is an
  index into \<open>heap\<close>), the world outside the adapter, on which the answers of the backend
  and of the tools may depend and which they may change, and the record of the calls
  made so far.
\<close>

record 'w state =
  heap :: "dict list"
  world :: 'w
  log :: "event list"

text \<open>
  The two collaborators: \<open>tool_manager.execute_tool(name, **args)\<close> and
  \<open>client.models.generate_content(...)\<close>. Either returns a value or raises.
\<close>

type_synonym 'w tool_manager = "string \<Rightarrow> dict \<Rightarrow> 'w \<Rightarrow> (exn + pyval) \<times> 'w"

text \<open>An instance: \<open>self.client\<close>, \<open>self.model_name\<close>, and the reference \<open>self.base_params\<close>.\<close>

record 'w ai_generator =
  client :: "request \<Rightarrow> 'w \<Rightarrow> (exn + response) \<times> 'w"
  model_name :: string
  base_params :: addr

section \<open>The class \<open>AIGenerator\<close>\<close>

text \<open>
  The static system prompt, byte for byte (the source file holds the eight bytes
  \<open>C3 A2 E2 82 AC E2 80 9D\<close> where a dash was meant).
\<close>

definition SYSTEM_PROMPT :: string where
  "SYSTEM_PROMPT =
    '' You are an AI assistant specialized in course materials and educational content with access to a comprehensive search tool for course information.'' @ [CHR 0x0A] @
    [CHR 0x0A] @
    ''Search Tool Usage:'' @ [CHR 0x0A] @
    ''- Use the search tool **only** for questions about specific course content or detailed educational materials'' @ [CHR 0x0A] @
    ''- **One search per query maximum**'' @ [CHR 0x0A] @
    ''- Synthesize search results into accurate, fact-based responses'' @ [CHR 0x0A] @
    ''- If search yields no results, state this clearly without offering alternatives'' @ [CHR 0x0A] @
    [CHR 0x0A] @
    ''Response Protocol:'' @ [CHR 0x0A] @
    ''- **General knowledge questions**: Answer using existing knowledge without searching'' @ [CHR 0x0A] @
    ''- **Course-specific questions**: Search first, then answer'' @ [CHR 0x0A] @
    ''- **No meta-commentary**:'' @ [CHR 0x0A] @
    '' - Provide direct answers only '' @
      [CHR 0xC3, CHR 0xA2, CHR 0xE2, CHR 0x82, CHR 0xAC, CHR 0xE2, CHR 0x80, CHR 0x9D] @
      '' no reasoning process, search explanations, or question-type analysis'' @ [CHR 0x0A] @
    '' - Do not mention '' @ [CHR 0x22] @ ''based on the search results'' @ [CHR 0x22] @ [CHR 0x0A] @
    [CHR 0x0A] @
    [CHR 0x0A] @
    ''All responses must be:'' @ [CHR 0x0A] @
    ''1. **Brief, Concise and focused** - Get to the point quickly'' @ [CHR 0x0A] @
    ''2. **Educational** - Maintain instructional value'' @ [CHR 0x0A] @
    ''3. **Clear** - Use accessible language'' @ [CHR 0x0A] @
    ''4. **Example-supported** - Include relevant examples when they aid understanding'' @ [CHR 0x0A] @
    ''Provide only the direct answer to what was asked.'' @ [CHR 0x0A]"

text \<open>
  \<open>__init__\<close>: a new dictionary \<open>{"temperature": 0, "max_output_tokens": 800}\<close> is
  allocated and \<open>self.base_params\<close> refers to it. The client built from the API key is
  the collaborator \<open>c\<close>.
\<close>

definition init :: "(request \<Rightarrow> 'w \<Rightarrow> (exn + response) \<times> 'w) \<Rightarrow> string \<Rightarrow> 'w state
    \<Rightarrow> 'w ai_generator \<times> 'w state" where
  "init c m st =
    (\<lparr>client = c, model_name = m, base_params = length (heap st)\<rparr>,
     st\<lparr>heap := heap st @ [[(''temperature'', PInt 0), (''max_output_tokens'', PInt 800)]]\<rparr>)"

text \<open>Lines 60-64: the system content.\<close>

definition build_system_content :: "string option \<Rightarrow> string" where
  "build_system_content conversation_history =
    (case conversation_history of
       None \<Rightarrow> SYSTEM_PROMPT
     | Some h \<Rightarrow>
         if h \<noteq> []
         then SYSTEM_PROMPT @ [CHR 0x0A, CHR 0x0A] @ ''Previous conversation:'' @ [CHR 0x0A] @ h
         else SYSTEM_PROMPT)"

text \<open>
  \<open>p["config"] = p.get("config", {})\<close> followed by \<open>p["config"][k] = v\<close>: the
  dictionary that \<open>p["config"]\<close> refers to is written in place; a new empty one is
  allocated only when \<open>p\<close> has no \<open>"config"\<close> entry.
\<close>

definition set_config_entry :: "string \<Rightarrow> pyval \<Rightarrow> api_params \<Rightarrow> 'w state \<Rightarrow> api_params \<times> 'w state" where
  "set_config_entry k v p st =
    (case config p of
       Some a \<Rightarrow> (p, st\<lparr>heap := (heap st)[a := AList.update k v (heap st ! a)]\<rparr>)
     | None \<Rightarrow>
         (p\<lparr>config := Some (length (heap st))\<rparr>,
          st\<lparr>heap := heap st @ [AList.update k v []]\<rparr>))"

text \<open>
  \<open>self.client.models.generate_content(**p)\<close>: the backend sees the current contents of
  the configuration dictionary; the call and its outcome are recorded.
\<close>

definition generate_content :: "'w ai_generator \<Rightarrow> api_params \<Rightarrow> 'w state \<Rightarrow> (exn + response) \<times> 'w state" where
  "generate_content self p st =
    (let req = \<lparr>req_model = model p, req_contents = contents p,
                req_config = map_option (\<lambda>a. heap st ! a) (config p)\<rparr>;
         (out, w) = client self req (world st)
     in (out, st\<lparr>world := w, log := log st @ [BackendCall req out]\<rparr>))"

text \<open>Lines 85-90: each tool declaration is wrapped in its own envelope.\<close>

definition gemini_tools :: "pyval list \<Rightarrow> pyval" where
  "gemini_tools tools = PList (map (\<lambda>tool. PDict [(''function_declarations'', PList [tool])]) tools)"

text \<open>Lines 127-131: the arguments passed to the tool.\<close>

definition resolve_tool_args :: "function_call \<Rightarrow> dict" where
  "resolve_tool_args fc =
    (let tool_args = (case fc_args fc of None \<Rightarrow> [] | Some a \<Rightarrow> if a \<noteq> [] then a else [])
     in if ''query'' \<notin> set (map fst tool_args) \<and> fc_name fc = ''search_course_content''
        then AList.update ''query'' (PStr ''default query'') tool_args
        else tool_args)"

text \<open>
  Lines 122-145: the loop over the parts of the model's answer. An exception of the
  tool manager ends the loop and the call.
\<close>

fun execute_tool_calls :: "'w tool_manager \<Rightarrow> part list \<Rightarrow> content_part list \<Rightarrow> 'w state
    \<Rightarrow> (exn + content_part list) \<times> 'w state" where
  "execute_tool_calls tool_manager [] tool_results st = (Inr tool_results, st)"
| "execute_tool_calls tool_manager (p # ps) tool_results st =
    (case part_function_call p of
       None \<Rightarrow> execute_tool_calls tool_manager ps tool_results st
     | Some fc \<Rightarrow>
         (let tool_args = resolve_tool_args fc;
              (out, w) = tool_manager (fc_name fc) tool_args (world st);
              st' = st\<lparr>world := w, log := log st @ [ToolCall (fc_name fc) tool_args out]\<rparr>
          in case out of
               Inl e \<Rightarrow> (Inl e, st')
             | Inr tool_result \<Rightarrow>
                 execute_tool_calls tool_manager ps
                   (tool_results @ [FunctionResponse (fc_name fc) tool_result]) st'))"

text \<open>
  \<open>_handle_tool_execution\<close>, lines 151-164: the keyword dictionary of the follow-up
  request. The parameter \<open>base_params'\<close> is the caller's \<open>api_params\<close>;
  \<open>base_params self\<close> is the attribute \<open>self.base_params\<close>, and
  \<open>final_params["config"] = self.base_params\<close> again stores a reference to that object.
\<close>

definition build_final_params :: "'w ai_generator \<Rightarrow> api_params \<Rightarrow> turn list \<Rightarrow> 'w state
    \<Rightarrow> api_params \<times> 'w state" where
  "build_final_params self base_params' contents' st =
    (let final_params0 = \<lparr>model = model_name self, contents = contents', config = None\<rparr>;
         final_params1 = (if heap st ! base_params self \<noteq> []
                          then final_params0\<lparr>config := Some (base_params self)\<rparr>
                          else final_params0);
         system_instruction =
           (case config base_params' of
              None \<Rightarrow> None
            | Some a \<Rightarrow> map_of (heap st ! a) ''system_instruction'')
     in case system_instruction of
          None \<Rightarrow> (final_params1, st)
        | Some v \<Rightarrow>
            if truthy v then set_config_entry ''system_instruction'' v final_params1 st
            else (final_params1, st))"

text \<open>
  \<open>_handle_tool_execution\<close>, lines 115-149 and 166-168: the model's turn, the tool
  calls, the turn of tool results, the follow-up request.
\<close>

definition handle_tool_execution :: "'w ai_generator \<Rightarrow> response \<Rightarrow> api_params \<Rightarrow> 'w tool_manager
    \<Rightarrow> 'w state \<Rightarrow> (exn + string option) \<times> 'w state" where
  "handle_tool_execution self initial_response base_params' tool_manager st =
    (case candidates initial_response of
       [] \<Rightarrow> (Inl IndexError, st)
     | c # _ \<Rightarrow>
         (let contents0 = contents base_params' @ [\<lparr>role = ''model'', parts = map ModelPart (content_parts c)\<rparr>];
              (r, st1) = execute_tool_calls tool_manager (content_parts c) [] st
          in case r of
               Inl e \<Rightarrow> (Inl e, st1)
             | Inr tool_results \<Rightarrow>
                 (let contents1 = (if tool_results \<noteq> []
                                   then contents0 @ [\<lparr>role = ''user'', parts = tool_results\<rparr>]
                                   else contents0);
                      (final_params, st2) = build_final_params self base_params' contents1 st1;
                      (out, st3) = generate_content self final_params st2
                  in case out of
                       Inl e \<Rightarrow> (Inl e, st3)
                     | Inr final_response \<Rightarrow> (Inr (response_text final_response), st3))))"

text \<open>
  \<open>generate_response\<close>, lines 59-91: the keyword dictionary of the first request.
  \<open>api_params["config"] = self.base_params\<close> stores a reference to the instance's own
  dictionary, so the two writes that follow go to that object.
\<close>

definition build_api_params :: "'w ai_generator \<Rightarrow> string \<Rightarrow> string option \<Rightarrow> pyval list option
    \<Rightarrow> 'w state \<Rightarrow> api_params \<times> 'w state" where
  "build_api_params self query conversation_history tools st =
    (let system_content = build_system_content conversation_history;
         api_params0 = \<lparr>model = model_name self,
                        contents = [\<lparr>role = ''user'', parts = [TextPart query]\<rparr>],
                        config = None\<rparr>;
         api_params1 = (if heap st ! base_params self \<noteq> []
                        then api_params0\<lparr>config := Some (base_params self)\<rparr>
                        else api_params0);
         (api_params2, st1) =
           (if system_content \<noteq> []
            then set_config_entry ''system_instruction''
                   (PDict [(''parts'', PList [PDict [(''text'', PStr system_content)]])]) api_params1 st
            else (api_params1, st))
     in case tools of
          None \<Rightarrow> (api_params2, st1)
        | Some ts \<Rightarrow>
            if ts \<noteq> [] then set_config_entry ''tools'' (gemini_tools ts) api_params2 st1
            else (api_params2, st1))"

text \<open>
  \<open>generate_response\<close>, lines 93-101: the first request and the choice of path.
  \<open>candidates[0]\<close> is read before \<open>tool_manager\<close> is tested; a tool manager that is
  supplied (\<open>Some tm\<close>) is an object and counts as true. The result is the string
  returned, or \<open>None\<close> when \<open>response.text\<close> is \<open>None\<close>, or the exception raised.
\<close>

definition generate_response :: "'w ai_generator \<Rightarrow> string \<Rightarrow> string option \<Rightarrow> pyval list option
    \<Rightarrow> 'w tool_manager option \<Rightarrow> 'w state \<Rightarrow> (exn + string option) \<times> 'w state" where
  "generate_response self query conversation_history tools tool_manager st =
    (let (api_params, st2) = build_api_params self query conversation_history tools st;
         (out, st3) = generate_content self api_params st2
     in case out of
          Inl e \<Rightarrow> (Inl e, st3)
        | Inr response \<Rightarrow>
            (case candidates response of
               [] \<Rightarrow> (Inl IndexError, st3)
             | c # _ \<Rightarrow>
                 (case tool_manager of
                    Some tm \<Rightarrow>
                      if finish_reason c = ''STOP''
                      then handle_tool_execution self response api_params tm st3
                      else (Inr (response_text response), st3)
                  | None \<Rightarrow> (Inr (response_text response), st3))))"

section \<open>Observing a call\<close>

text \<open>The requests sent to the backend and the tool invocations, read off the record of calls.\<close>

fun backend_requests :: "event list \<Rightarrow> request list" where
  "backend_requests [] = []"
| "backend_requests (BackendCall req out # evs) = req # backend_requests evs"
| "backend_requests (ToolCall n a out # evs) = backend_requests evs"

fun tool_calls :: "event list \<Rightarrow> (string \<times> dict) list" where
  "tool_calls [] = []"
| "tool_calls (BackendCall req out # evs) = tool_calls evs"
| "tool_calls (ToolCall n a out # evs) = (n, a) # tool_calls evs"

text \<open>The tool-call parts of a response, in the order in which they appear.\<close>

fun function_calls :: "part list \<Rightarrow> function_call list" where
  "function_calls [] = []"
| "function_calls (p # ps) =
    (case part_function_call p of
       None \<Rightarrow> function_calls ps
     | Some fc \<Rightarrow> fc # function_calls ps)"

text \<open>The \<open>"tools"\<close> entry of a request's configuration, if it has one.\<close>

definition request_tools :: "request \<Rightarrow> pyval option" where
  "request_tools req = (case req_config req of None \<Rightarrow> None | Some cfg \<Rightarrow> map_of cfg ''tools'')"

text \<open>
  What lines 79 and 91 write into a configuration dictionary \<open>d\<close>: the system
  instruction, and the tool declarations when there are any.
\<close>

definition shared_config :: "string option \<Rightarrow> pyval list option \<Rightarrow> dict \<Rightarrow> dict" where
  "shared_config h tools d =
    (let d1 = AList.update ''system_instruction''
                (PDict [(''parts'', PList [PDict [(''text'', PStr (build_system_content h))]])]) d
     in case tools of
          None \<Rightarrow> d1
        | Some ts \<Rightarrow> if ts \<noteq> [] then AList.update ''tools'' (gemini_tools ts) d1 else d1)"

section \<open>Collaborators for the examples\<close>

text \<open>
  A backend that answers its \<open>n\<close>-th call with the \<open>n\<close>-th response of a script and
  fails when the script is used up; the world is the number of calls made so far.
\<close>

definition scripted_client :: "response list \<Rightarrow> request \<Rightarrow> nat \<Rightarrow> (exn + response) \<times> nat" where
  "scripted_client rs req n =
    (if n < length rs then (Inr (rs ! n), Suc n) else (Inl (Raised ''quota exceeded''), Suc n))"

definition const_tool_manager :: "pyval \<Rightarrow> nat tool_manager" where
  "const_tool_manager v n a w = (Inr v, w)"

definition failing_tool_manager :: "nat tool_manager" where
  "failing_tool_manager n a w = (Inl (Raised ''search failed''), w)"

definition text_response :: "string \<Rightarrow> string \<Rightarrow> response" where
  "text_response reason s =
    \<lparr>candidates = [\<lparr>finish_reason = reason,
                     content_parts = [\<lparr>part_text = Some s, part_function_call = None\<rparr>]\<rparr>],
     response_text = Some s\<rparr>"

definition tool_call_response :: "function_call list \<Rightarrow> response" where
  "tool_call_response fcs =
    \<lparr>candidates = [\<lparr>finish_reason = ''STOP'',
                     content_parts = map (\<lambda>fc. \<lparr>part_text = None, part_function_call = Some fc\<rparr>) fcs\<rparr>],
     response_text = None\<rparr>"

definition empty_state :: "nat state" where
  "empty_state = \<lparr>heap = [], world = 0, log = []\<rparr>"

text \<open>A newly constructed generator talking to a scripted backend, and the state it lives in.\<close>

definition new_generator :: "response list \<Rightarrow> nat ai_generator" where
  "new_generator rs = fst (init (scripted_client rs) ''gemini-2.0-flash'' empty_state)"

definition new_state :: "response list \<Rightarrow> nat state" where
  "new_state rs = snd (init (scripted_client rs) ''gemini-2.0-flash'' empty_state)"

text \<open>The tool declaration, the tool calls and the truncated answer used below.\<close>

definition search_tool :: pyval where
  "search_tool = PDict [(''name'', PStr ''search_course_content''),
                        (''description'', PStr ''Search course materials'')]"

definition search_call :: function_call where
  "search_call = \<lparr>fc_name = ''search_course_content'', fc_args = Some [(''query'', PStr ''topic X'')]\<rparr>"

definition bare_search_call :: function_call where
  "bare_search_call = \<lparr>fc_name = ''search_course_content'', fc_args = None\<rparr>"

definition truncated_response :: response where
  "truncated_response = \<lparr>candidates = [\<lparr>finish_reason = ''MAX_TOKENS'', content_parts = []\<rparr>],
                          response_text = None\<rparr>"

text \<open>
  The configuration dictionary of a new generator once a call has written the system
  instruction for the system content \<open>s\<close> into it, and the first request of a call.
\<close>

definition system_config :: "string \<Rightarrow> dict" where
  "system_config s =
    [(''temperature'', PInt 0), (''max_output_tokens'', PInt 800),
     (''system_instruction'', PDict [(''parts'', PList [PDict [(''text'', PStr s)]])])]"

definition first_request :: "string \<Rightarrow> dict \<Rightarrow> request" where
  "first_request q cfg =
    \<lparr>req_model = ''gemini-2.0-flash'',
     req_contents = [\<lparr>role = ''user'', parts = [TextPart q]\<rparr>],
     req_config = Some cfg\<rparr>"

section \<open>Example calls on a new generator\<close>

text \<open>No tools, no tool manager; the backend answers \<open>4.\<close>\<close>

definition call_plain :: "(exn + string option) \<times> nat state" where
  "call_plain =
    generate_response (new_generator [text_response ''STOP'' ''4.'']) ''What is 2+2?'' None None None
      (new_state [text_response ''STOP'' ''4.''])"

text \<open>The same, with a conversation history.\<close>

definition call_with_history :: "(exn + string option) \<times> nat state" where
  "call_with_history =
    generate_response (new_generator [text_response ''STOP'' ''4.'']) ''What is 2+2?''
      (Some ''User: hi'') None None (new_state [text_response ''STOP'' ''4.''])"


text \<open>
  A tool declaration and a tool manager; the backend asks for one search with its
  query and then answers.
\<close>

definition call_search :: "(exn + string option) \<times> nat state" where
  "call_search =
    generate_response
      (new_generator [tool_call_response [search_call], text_response ''STOP'' ''X is ...''])
      ''Explain topic X'' None (Some [search_tool]) (Some (const_tool_manager (PStr ''X is ...'')))
      (new_state [tool_call_response [search_call], text_response ''STOP'' ''X is ...''])"

text \<open>The same, but the backend's tool call has no arguments.\<close>

definition call_bare_search :: "(exn + string option) \<times> nat state" where
  "call_bare_search =
    generate_response
      (new_generator [tool_call_response [bare_search_call], text_response ''STOP'' ''X is ...''])
      ''Explain topic X'' None (Some [search_tool]) (Some (const_tool_manager (PStr ''X is ...'')))
      (new_state [tool_call_response [bare_search_call], text_response ''STOP'' ''X is ...''])"

text \<open>The same as \<open>call_search\<close>, but the tool manager raises.\<close>

definition call_failing_search :: "(exn + string option) \<times> nat state" where
  "call_failing_search =
    generate_response
      (new_generator [tool_call_response [search_call], text_response ''STOP'' ''X is ...''])
      ''Explain topic X'' None (Some [search_tool]) (Some failing_tool_manager)
      (new_state [tool_call_response [search_call], text_response ''STOP'' ''X is ...''])"


section \<open>Properties of the building blocks\<close>

lemma SYSTEM_PROMPT_nonempty: "SYSTEM_PROMPT \<noteq> []"
  by (simp add: SYSTEM_PROMPT_def)

lemma build_system_content_nonempty: "build_system_content h \<noteq> []"
  by (simp add: build_system_content_def SYSTEM_PROMPT_nonempty split: option.splits)

lemma backend_requests_append:
  "backend_requests (xs @ ys) = backend_requests xs @ backend_requests ys"
  by (induction xs rule: backend_requests.induct) simp_all

lemma tool_calls_append: "tool_calls (xs @ ys) = tool_calls xs @ tool_calls ys"
  by (induction xs rule: tool_calls.induct) simp_all

lemma set_config_entry_frame:
  "set_config_entry k v p st = (p', st') \<Longrightarrow>
     log st' = log st \<and> world st' = world st \<and> model p' = model p \<and> contents p' = contents p"
  by (auto simp: set_config_entry_def split: option.splits)

lemma build_api_params_frame:
  assumes "build_api_params self query h tools st = (p, st')"
  shows "log st' = log st \<and> world st' = world st \<and> model p = model_name self
         \<and> contents p = [\<lparr>role = ''user'', parts = [TextPart query]\<rparr>]"
  using assms
  by (auto simp: build_api_params_def Let_def build_system_content_nonempty
           split: prod.splits option.splits if_splits dest!: set_config_entry_frame)

lemma build_final_params_frame:
  assumes "build_final_params self p cs st = (fp, st')"
  shows "log st' = log st \<and> world st' = world st \<and> model fp = model_name self \<and> contents fp = cs"
  using assms
  by (auto simp: build_final_params_def Let_def
           split: option.splits if_splits dest!: set_config_entry_frame)

lemma generate_content_effect:
  assumes "generate_content self p st = (out, st')"
  shows "heap st' = heap st"
    and "log st' = log st @ [BackendCall \<lparr>req_model = model p, req_contents = contents p,
            req_config = map_option (\<lambda>a. heap st ! a) (config p)\<rparr> out]"
  using assms by (auto simp: generate_content_def Let_def split: prod.splits)

text \<open>The loop over the parts never touches the store.\<close>

lemma execute_tool_calls_heap:
  "execute_tool_calls tm ps acc st = (r, st') \<Longrightarrow> heap st' = heap st"
proof (induction ps arbitrary: acc st)
  case Nil
  then show ?case by simp
next
  case (Cons p ps)
  then show ?case
    by (auto simp: Let_def split: option.splits prod.splits sum.splits)
qed

text \<open>
  When the loop runs to its end, it has invoked the tool manager once per tool-call
  part, in order, and has collected one result part per invocation.
\<close>

lemma execute_tool_calls_Inr:
  "execute_tool_calls tm ps acc st = (Inr rs, st') \<Longrightarrow>
     \<exists>vs. length vs = length (function_calls ps)
        \<and> log st' = log st @ map2 (\<lambda>fc v. ToolCall (fc_name fc) (resolve_tool_args fc) (Inr v)) (function_calls ps) vs
        \<and> rs = acc @ map2 (\<lambda>fc v. FunctionResponse (fc_name fc) v) (function_calls ps) vs"
proof (induction ps arbitrary: acc st)
  case Nil
  then show ?case by simp
next
  case (Cons p ps)
  show ?case
  proof (cases "part_function_call p")
    case None
    with Cons show ?thesis by simp
  next
    case (Some fc)
    obtain out w where tm: "tm (fc_name fc) (resolve_tool_args fc) (world st) = (out, w)"
      by (cases "tm (fc_name fc) (resolve_tool_args fc) (world st)")
    let ?st = "st\<lparr>world := w, log := log st @ [ToolCall (fc_name fc) (resolve_tool_args fc) out]\<rparr>"
    from Cons.prems Some tm obtain v where out: "out = Inr v"
      and rec: "execute_tool_calls tm ps (acc @ [FunctionResponse (fc_name fc) v]) ?st = (Inr rs, st')"
      by (cases out) (auto simp: Let_def)
    from Cons.IH[OF rec] obtain vs where
      "length vs = length (function_calls ps)"
      "log st' = log ?st @ map2 (\<lambda>fc v. ToolCall (fc_name fc) (resolve_tool_args fc) (Inr v)) (function_calls ps) vs"
      "rs = (acc @ [FunctionResponse (fc_name fc) v]) @ map2 (\<lambda>fc v. FunctionResponse (fc_name fc) v) (function_calls ps) vs"
      by blast
    then show ?thesis using Some out
      by (intro exI[of _ "v # vs"]) simp
  qed
qed

text \<open>
  When the loop ends with an exception, the last call recorded is the tool invocation
  that raised it, and every invocation before it returned.
\<close>

lemma execute_tool_calls_Inl:
  "execute_tool_calls tm ps acc st = (Inl e, st') \<Longrightarrow>
     \<exists>pre n a. log st' = log st @ pre @ [ToolCall n a (Inl e)]
        \<and> (\<forall>ev \<in> set pre. \<exists>n a v. ev = ToolCall n a (Inr v))"
proof (induction ps arbitrary: acc st)
  case Nil
  then show ?case by simp
next
  case (Cons p ps)
  show ?case
  proof (cases "part_function_call p")
    case None
    with Cons show ?thesis by simp
  next
    case (Some fc)
    obtain out w where tm: "tm (fc_name fc) (resolve_tool_args fc) (world st) = (out, w)"
      by (cases "tm (fc_name fc) (resolve_tool_args fc) (world st)")
    let ?ev = "ToolCall (fc_name fc) (resolve_tool_args fc) out"
    let ?st = "st\<lparr>world := w, log := log st @ [?ev]\<rparr>"
    show ?thesis
    proof (cases out)
      case (Inl e')
      with Cons.prems Some tm have "e' = e" "st' = ?st"
        by (auto simp: Let_def)
      with Inl have "log st' = log st @ [] @ [ToolCall (fc_name fc) (resolve_tool_args fc) (Inl e)]"
        by simp
      then show ?thesis
        by (metis empty_iff empty_set)
    next
      case (Inr v)
      with Cons.prems Some tm
      have rec: "execute_tool_calls tm ps (acc @ [FunctionResponse (fc_name fc) v]) ?st = (Inl e, st')"
        by (auto simp: Let_def)
      from Cons.IH[OF rec] obtain pre n a where
        "log st' = log ?st @ pre @ [ToolCall n a (Inl e)]"
        "\<forall>ev \<in> set pre. \<exists>n a v. ev = ToolCall n a (Inr v)"
        by blast
      with Inr have "log st' = log st @ (?ev # pre) @ [ToolCall n a (Inl e)]"
        and "\<forall>ev \<in> set (?ev # pre). \<exists>n a v. ev = ToolCall n a (Inr v)"
        by auto
      then show ?thesis
        by blast
    qed
  qed
qed

subsection \<open>The arguments of a tool call\<close>

text \<open>
  A call of \<open>search_course_content\<close> without a \<open>query\<close> is given the query
  \<open>default query\<close>; the arguments of any other tool are passed on as they are.
\<close>

lemma resolve_tool_args_placeholder:
  assumes "fc_name fc = ''search_course_content''"
    and "fc_args fc = None \<or> ''query'' \<notin> fst ` set (the (fc_args fc))"
  shows "map_of (resolve_tool_args fc) ''query'' = Some (PStr ''default query'')"
  using assms
  by (auto simp: resolve_tool_args_def Let_def AList.update_conv' split: option.splits)

lemma resolve_tool_args_other:
  assumes "fc_name fc \<noteq> ''search_course_content''"
  shows "resolve_tool_args fc = (case fc_args fc of None \<Rightarrow> [] | Some a \<Rightarrow> a)"
  using assms
  by (auto simp: resolve_tool_args_def Let_def split: option.splits)


text \<open>Tool invocations are not backend requests.\<close>

lemma backend_requests_tool_calls_only:
  "\<forall>ev \<in> set evs. \<exists>n a out. ev = ToolCall n a out \<Longrightarrow> backend_requests evs = []"
  by (induction evs rule: backend_requests.induct) auto

lemma tool_events_no_backend_requests:
  "backend_requests (map2 (\<lambda>fc v. ToolCall (fc_name fc) (resolve_tool_args fc) (Inr v)) fcs vs) = []"
  by (rule backend_requests_tool_calls_only) (auto simp: in_set_zip)

subsection \<open>The tool-execution path\<close>

text \<open>An exception of the tool manager is the outcome of the path, and nothing follows it.\<close>

lemma handle_tool_execution_Inl:
  assumes "candidates r = c # cs"
    and "execute_tool_calls tm (content_parts c) [] st = (Inl e, st1)"
  shows "handle_tool_execution self r p tm st = (Inl e, st1)"
  using assms by (simp add: handle_tool_execution_def)

text \<open>After a completed loop the path builds the follow-up request and sends it.\<close>

lemma handle_tool_execution_Inr:
  assumes c: "candidates r = c # cs"
    and loop: "execute_tool_calls tm (content_parts c) [] st = (Inr rs, st1)"
    and h: "handle_tool_execution self r p tm st = (res, st')"
  shows "\<exists>fp st2 out.
           build_final_params self p
             (contents p @ [\<lparr>role = ''model'', parts = map ModelPart (content_parts c)\<rparr>]
                @ (if rs = [] then [] else [\<lparr>role = ''user'', parts = rs\<rparr>])) st1 = (fp, st2)
         \<and> generate_content self fp st2 = (out, st')
         \<and> res = (case out of Inl e \<Rightarrow> Inl e | Inr final_response \<Rightarrow> Inr (response_text final_response))"
proof -
  let ?cs = "contents p @ [\<lparr>role = ''model'', parts = map ModelPart (content_parts c)\<rparr>]
                 @ (if rs = [] then [] else [\<lparr>role = ''user'', parts = rs\<rparr>])"
  obtain fp st2 where fp: "build_final_params self p ?cs st1 = (fp, st2)"
    by (cases "build_final_params self p ?cs st1")
  obtain out st3 where gc: "generate_content self fp st2 = (out, st3)"
    by (cases "generate_content self fp st2")
  from c loop fp gc h
  have "res = (case out of Inl e \<Rightarrow> Inl e | Inr final_response \<Rightarrow> Inr (response_text final_response))"
    and "st' = st3"
    by (auto simp: handle_tool_execution_def Let_def split: sum.splits if_splits)
  with fp gc show ?thesis by simp
qed

lemma handle_tool_execution_Inr_log:
  assumes c: "candidates r = c # cs"
    and loop: "execute_tool_calls tm (content_parts c) [] st = (Inr rs, st1)"
    and h: "handle_tool_execution self r p tm st = (res, st')"
  shows "\<exists>req out. log st' = log st1 @ [BackendCall req out]
           \<and> req_model req = model_name self
           \<and> req_contents req =
               contents p @ [\<lparr>role = ''model'', parts = map ModelPart (content_parts c)\<rparr>]
                 @ (if rs = [] then [] else [\<lparr>role = ''user'', parts = rs\<rparr>])
           \<and> res = (case out of Inl e \<Rightarrow> Inl e | Inr final_response \<Rightarrow> Inr (response_text final_response))"
proof -
  from handle_tool_execution_Inr[OF assms] obtain fp st2 out where
    fp: "build_final_params self p
             (contents p @ [\<lparr>role = ''model'', parts = map ModelPart (content_parts c)\<rparr>]
                @ (if rs = [] then [] else [\<lparr>role = ''user'', parts = rs\<rparr>])) st1 = (fp, st2)"
    and gc: "generate_content self fp st2 = (out, st')"
    and res: "res = (case out of Inl e \<Rightarrow> Inl e | Inr final_response \<Rightarrow> Inr (response_text final_response))"
    by blast
  from build_final_params_frame[OF fp] generate_content_effect(2)[OF gc] res
  show ?thesis by simp
qed

text \<open>The tool-execution path always calls a collaborator at least once.\<close>

lemma handle_tool_execution_log:
  assumes c: "candidates r = c # cs"
    and h: "handle_tool_execution self r p tm st = (res, st')"
  shows "\<exists>evs. evs \<noteq> [] \<and> log st' = log st @ evs"
proof -
  obtain r1 st1 where loop: "execute_tool_calls tm (content_parts c) [] st = (r1, st1)"
    by (cases "execute_tool_calls tm (content_parts c) [] st")
  show ?thesis
  proof (cases r1)
    case (Inl e)
    from handle_tool_execution_Inl[OF c loop[unfolded Inl]] h have "st' = st1" by simp
    with execute_tool_calls_Inl[OF loop[unfolded Inl]] show ?thesis by auto
  next
    case (Inr rs)
    from execute_tool_calls_Inr[OF loop[unfolded Inr]] obtain evs where "log st1 = log st @ evs"
      by blast
    with handle_tool_execution_Inr_log[OF c loop[unfolded Inr] h] show ?thesis by auto
  qed
qed

subsection \<open>The whole call\<close>

text \<open>A call is: build the request, send it, then choose the path.\<close>

lemma generate_response_unfold:
  assumes "generate_response self query h tools tmo st = (res, st')"
  shows "\<exists>p st2 out st3.
           build_api_params self query h tools st = (p, st2)
         \<and> generate_content self p st2 = (out, st3)
         \<and> log st3 = log st @ [BackendCall \<lparr>req_model = model_name self,
               req_contents = [\<lparr>role = ''user'', parts = [TextPart query]\<rparr>],
               req_config = map_option (\<lambda>a. heap st2 ! a) (config p)\<rparr> out]
         \<and> (res, st') =
             (case out of
                Inl e \<Rightarrow> (Inl e, st3)
              | Inr r \<Rightarrow>
                  (case candidates r of
                     [] \<Rightarrow> (Inl IndexError, st3)
                   | c # _ \<Rightarrow>
                       if finish_reason c = ''STOP'' \<and> tmo \<noteq> None
                       then handle_tool_execution self r p (the tmo) st3
                       else (Inr (response_text r), st3)))"
proof -
  obtain p st2 where p: "build_api_params self query h tools st = (p, st2)"
    by (cases "build_api_params self query h tools st")
  obtain out st3 where gc: "generate_content self p st2 = (out, st3)"
    by (cases "generate_content self p st2")
  from build_api_params_frame[OF p] generate_content_effect(2)[OF gc]
  have "log st3 = log st @ [BackendCall \<lparr>req_model = model_name self,
               req_contents = [\<lparr>role = ''user'', parts = [TextPart query]\<rparr>],
               req_config = map_option (\<lambda>a. heap st2 ! a) (config p)\<rparr> out]"
    by simp
  moreover from assms p gc have "(res, st') =
             (case out of
                Inl e \<Rightarrow> (Inl e, st3)
              | Inr r \<Rightarrow>
                  (case candidates r of
                     [] \<Rightarrow> (Inl IndexError, st3)
                   | c # _ \<Rightarrow>
                       if finish_reason c = ''STOP'' \<and> tmo \<noteq> None
                       then handle_tool_execution self r p (the tmo) st3
                       else (Inr (response_text r), st3)))"
    by (auto simp: generate_response_def split: sum.splits list.splits option.splits)
  ultimately show ?thesis using p gc by blast
qed

text \<open>The same, seen from the record of calls: when the first call recorded is a backend
  request answered by \<open>r\<close>, the rest of the call is determined by \<open>r\<close>.\<close>

lemma generate_response_first_response:
  assumes gr: "generate_response self query h tools tmo st = (res, st')"
    and first: "log st' = log st @ BackendCall req (Inr r) # evs"
    and c: "candidates r = c # cs"
  shows "\<exists>p st2 st3.
           build_api_params self query h tools st = (p, st2)
         \<and> generate_content self p st2 = (Inr r, st3)
         \<and> log st3 = log st @ [BackendCall req (Inr r)]
         \<and> (if finish_reason c = ''STOP'' \<and> tmo \<noteq> None
            then handle_tool_execution self r p (the tmo) st3
            else (Inr (response_text r), st3)) = (res, st')"
proof -
  obtain p st2 where p: "build_api_params self query h tools st = (p, st2)"
    by (cases "build_api_params self query h tools st")
  obtain out st3 where gc: "generate_content self p st2 = (out, st3)"
    by (cases "generate_content self p st2")
  from build_api_params_frame[OF p] generate_content_effect(2)[OF gc]
  obtain req' where log3: "log st3 = log st @ [BackendCall req' out]"
    by simp
  have run: "(case out of
                Inl e \<Rightarrow> (Inl e, st3)
              | Inr r \<Rightarrow>
                  (case candidates r of
                     [] \<Rightarrow> (Inl IndexError, st3)
                   | c # _ \<Rightarrow>
                       if finish_reason c = ''STOP'' \<and> tmo \<noteq> None
                       then handle_tool_execution self r p (the tmo) st3
                       else (Inr (response_text r), st3))) = (res, st')"
    using gr p gc by (auto simp: generate_response_def split: sum.splits list.splits option.splits)
  have "\<exists>evs'. log st' = log st3 @ evs'"
  proof (cases out)
    case (Inl e)
    with run show ?thesis by simp
  next
    case (Inr r')
    show ?thesis
    proof (cases "candidates r'")
      case Nil
      with Inr run show ?thesis by simp
    next
      case (Cons c' cs')
      show ?thesis
      proof (cases "finish_reason c' = ''STOP'' \<and> tmo \<noteq> None")
        case True
        with Inr Cons run have "handle_tool_execution self r' p (the tmo) st3 = (res, st')" by simp
        from handle_tool_execution_log[OF Cons this] show ?thesis by blast
      next
        case False
        with Inr Cons run have "st' = st3" by auto
        then show ?thesis by simp
      qed
    qed
  qed
  with first log3 have "out = Inr r" "req' = req" by auto
  with p gc log3 run c show ?thesis by simp
qed

subsection \<open>The configuration dictionary in the store\<close>

lemma set_config_entry_lookup:
  assumes "set_config_entry k v p st = (p', st')"
    and "\<And>a. config p = Some a \<Longrightarrow> a < length (heap st)"
  shows "\<exists>a. config p' = Some a \<and> a < length (heap st') \<and> map_of (heap st' ! a) k = Some v"
  using assms
  by (auto simp: set_config_entry_def AList.update_conv' nth_append split: option.splits)

lemma set_config_entry_other:
  assumes "set_config_entry k v p st = (p', st')"
    and "config p = Some a" and "a < length (heap st)" and "k' \<noteq> k"
  shows "config p' = Some a \<and> length (heap st') = length (heap st)
         \<and> map_of (heap st' ! a) k' = map_of (heap st ! a) k'"
  using assms
  by (auto simp: set_config_entry_def AList.update_conv' split: option.splits)

lemma set_config_entry_length:
  "set_config_entry k v p st = (p', st') \<Longrightarrow> length (heap st) \<le> length (heap st')"
  by (auto simp: set_config_entry_def split: option.splits)

text \<open>The first request always has a configuration, and it holds the system instruction.\<close>

lemma build_api_params_system_instruction:
  assumes wf: "base_params self < length (heap st)"
    and p: "build_api_params self query h tools st = (p, st2)"
  shows "\<exists>a. config p = Some a \<and> a < length (heap st2)
           \<and> map_of (heap st2 ! a) ''system_instruction''
               = Some (PDict [(''parts'', PList [PDict [(''text'', PStr (build_system_content h))]])])"
    and "base_params self < length (heap st2)"
proof -
  let ?v = "PDict [(''parts'', PList [PDict [(''text'', PStr (build_system_content h))]])]"
  let ?p0 = "\<lparr>model = model_name self, contents = [\<lparr>role = ''user'', parts = [TextPart query]\<rparr>], config = None\<rparr>"
  let ?p1 = "if heap st ! base_params self \<noteq> [] then ?p0\<lparr>config := Some (base_params self)\<rparr> else ?p0"
  obtain p2 st1 where s1: "set_config_entry ''system_instruction'' ?v ?p1 st = (p2, st1)"
    by (cases "set_config_entry ''system_instruction'' ?v ?p1 st")
  have wf1: "\<And>a. config ?p1 = Some a \<Longrightarrow> a < length (heap st)"
    using wf by (auto split: if_splits)
  from set_config_entry_lookup[OF s1 wf1] obtain a where
    a: "config p2 = Some a" "a < length (heap st1)"
       "map_of (heap st1 ! a) ''system_instruction'' = Some ?v"
    by blast
  from set_config_entry_length[OF s1] wf have len1: "base_params self < length (heap st1)" by simp
  from p s1 have rest: "(p, st2) =
      (case tools of None \<Rightarrow> (p2, st1)
       | Some ts \<Rightarrow> if ts \<noteq> [] then set_config_entry ''tools'' (gemini_tools ts) p2 st1 else (p2, st1))"
    by (simp add: build_api_params_def Let_def build_system_content_nonempty)
  show "\<exists>a. config p = Some a \<and> a < length (heap st2)
           \<and> map_of (heap st2 ! a) ''system_instruction'' = Some ?v"
  proof (cases "\<exists>ts. tools = Some ts \<and> ts \<noteq> []")
    case True
    then obtain ts where "tools = Some ts" "ts \<noteq> []" by blast
    with rest have "set_config_entry ''tools'' (gemini_tools ts) p2 st1 = (p, st2)" by simp
    from set_config_entry_other[OF this a(1,2), of "''system_instruction''"] a show ?thesis by simp
  next
    case False
    with rest have "p = p2" "st2 = st1" by (auto split: option.splits)
    with a show ?thesis by simp
  qed
  show "base_params self < length (heap st2)"
  proof (cases "\<exists>ts. tools = Some ts \<and> ts \<noteq> []")
    case True
    then obtain ts where "tools = Some ts" "ts \<noteq> []" by blast
    with rest have "set_config_entry ''tools'' (gemini_tools ts) p2 st1 = (p, st2)" by simp
    from set_config_entry_length[OF this] len1 show ?thesis by simp
  next
    case False
    with rest have "st2 = st1" by (auto split: option.splits)
    with len1 show ?thesis by simp
  qed
qed

text \<open>So has the follow-up request.\<close>

lemma build_final_params_system_instruction:
  assumes wf: "base_params self < length (heap st)"
    and cfg: "config p = Some a" "map_of (heap st ! a) ''system_instruction'' = Some v" "truthy v"
    and fp: "build_final_params self p cs st = (fp, st')"
  shows "\<exists>b. config fp = Some b \<and> map_of (heap st' ! b) ''system_instruction'' = Some v"
proof -
  let ?f0 = "\<lparr>model = model_name self, contents = cs, config = None\<rparr>"
  let ?f1 = "if heap st ! base_params self \<noteq> [] then ?f0\<lparr>config := Some (base_params self)\<rparr> else ?f0"
  from fp cfg have s: "set_config_entry ''system_instruction'' v ?f1 st = (fp, st')"
    by (simp add: build_final_params_def Let_def)
  have "\<And>a. config ?f1 = Some a \<Longrightarrow> a < length (heap st)"
    using wf by (auto split: if_splits)
  from set_config_entry_lookup[OF s this] show ?thesis by blast
qed

lemma build_system_content_cases:
  "build_system_content h =
     (if h = None \<or> h = Some [] then SYSTEM_PROMPT
      else SYSTEM_PROMPT @ [CHR 0x0A, CHR 0x0A] @ ''Previous conversation:'' @ [CHR 0x0A] @ the h)"
  by (auto simp: build_system_content_def split: option.splits)

subsection \<open>One dictionary for every request\<close>

lemma shared_config_lookup:
  "map_of (shared_config h tools d) ''system_instruction''
     = Some (PDict [(''parts'', PList [PDict [(''text'', PStr (build_system_content h))]])])"
  "shared_config h tools d \<noteq> []"
  "ts \<noteq> [] \<Longrightarrow> map_of (shared_config h (Some ts) d) ''tools'' = Some (gemini_tools ts)"
  by (auto simp: shared_config_def Let_def AList.update_conv' split: option.splits)

lemma build_api_params_shared:
  assumes wf: "base_params self < length (heap st)"
    and nonempty: "heap st ! base_params self \<noteq> []"
    and p: "build_api_params self query h tools st = (p, st2)"
  shows "config p = Some (base_params self)"
    and "heap st2 = (heap st)[base_params self := shared_config h tools (heap st ! base_params self)]"
  using assms
  by (auto simp: build_api_params_def set_config_entry_def shared_config_def Let_def
                 build_system_content_nonempty split: option.splits if_splits)

lemma build_final_params_shared:
  assumes wf: "a < length (heap st)"
    and a: "base_params self = a" "config p = Some a"
    and d: "heap st ! a = shared_config h tools d"
    and fp: "build_final_params self p cs st = (fp, st')"
  shows "config fp = Some a" and "heap st' = heap st"
proof -
  let ?v = "PDict [(''parts'', PList [PDict [(''text'', PStr (build_system_content h))]])]"
  have si: "map_of (heap st ! a) ''system_instruction'' = Some ?v"
    using d by (simp add: shared_config_lookup)
  have ne: "heap st ! a \<noteq> []"
    using d by (simp add: shared_config_lookup)
  from fp a si ne
  have eq: "(fp, st') = (\<lparr>model = model_name self, contents = cs, config = Some a\<rparr>,
                st\<lparr>heap := (heap st)[a := AList.update ''system_instruction'' ?v (heap st ! a)]\<rparr>)"
    by (simp add: build_final_params_def set_config_entry_def Let_def)
  from eq show "config fp = Some a" by simp
  from eq si show "heap st' = heap st"
    by (simp add: AList.update_triv)
qed

text \<open>
  When the dictionary of \<open>self.base_params\<close> is not empty, as it is from construction
  on, a call writes its system instruction and its tool declarations into that
  dictionary, leaves them there, and sends that dictionary with every request.
\<close>

lemma requests_share_base_params:
  assumes wf: "base_params self < length (heap st)"
    and nonempty: "heap st ! base_params self \<noteq> []"
    and gr: "generate_response self query h tools tmo st = (res, st')"
  shows "heap st' = (heap st)[base_params self := shared_config h tools (heap st ! base_params self)]"
    and "\<forall>req \<in> set (backend_requests (drop (length (log st)) (log st'))).
           req_config req = Some (shared_config h tools (heap st ! base_params self))"
proof -
  let ?a = "base_params self"
  let ?D = "shared_config h tools (heap st ! ?a)"
  let ?H = "(heap st)[?a := ?D]"
  from generate_response_unfold[OF gr] obtain p st2 out st3 where
    p: "build_api_params self query h tools st = (p, st2)"
    and gc: "generate_content self p st2 = (out, st3)"
    and log3: "log st3 = log st @ [BackendCall \<lparr>req_model = model_name self,
               req_contents = [\<lparr>role = ''user'', parts = [TextPart query]\<rparr>],
               req_config = map_option (\<lambda>a. heap st2 ! a) (config p)\<rparr> out]"
    and res: "(res, st') =
             (case out of
                Inl e \<Rightarrow> (Inl e, st3)
              | Inr r \<Rightarrow>
                  (case candidates r of
                     [] \<Rightarrow> (Inl IndexError, st3)
                   | c # _ \<Rightarrow>
                       if finish_reason c = ''STOP'' \<and> tmo \<noteq> None
                       then handle_tool_execution self r p (the tmo) st3
                       else (Inr (response_text r), st3)))"
    by blast
  from build_api_params_shared[OF wf nonempty p]
  have cfg: "config p = Some ?a" and heap2: "heap st2 = ?H" by simp_all
  from heap2 wf have at2: "heap st2 ! ?a = ?D" by simp
  from generate_content_effect(1)[OF gc] heap2 have heap3: "heap st3 = ?H" by simp
  from log3 cfg at2 have new3: "backend_requests (drop (length (log st)) (log st3))
      = [\<lparr>req_model = model_name self,
          req_contents = [\<lparr>role = ''user'', parts = [TextPart query]\<rparr>],
          req_config = Some ?D\<rparr>]"
    by simp
  let ?goal = "heap st' = ?H \<and> (\<forall>req \<in> set (backend_requests (drop (length (log st)) (log st'))).
           req_config req = Some ?D)"
  have direct: ?goal if "st' = st3"
    using that heap3 new3 by simp
  have ?goal
  proof (cases out)
    case (Inl e)
    with res direct show ?thesis by simp
  next
    case (Inr r)
    show ?thesis
    proof (cases "candidates r")
      case Nil
      with Inr res direct show ?thesis by simp
    next
      case (Cons c cs)
      show ?thesis
      proof (cases "finish_reason c = ''STOP'' \<and> tmo \<noteq> None")
        case False
        with Inr Cons res have "st' = st3" by auto
        with direct show ?thesis by simp
      next
        case True
        with Inr Cons res have h: "handle_tool_execution self r p (the tmo) st3 = (res, st')" by simp
        obtain r1 st1 where loop: "execute_tool_calls (the tmo) (content_parts c) [] st3 = (r1, st1)"
          by (cases "execute_tool_calls (the tmo) (content_parts c) [] st3")
        have heap1: "heap st1 = ?H"
          using execute_tool_calls_heap[OF loop] heap3 by simp
        show ?thesis
        proof (cases r1)
          case (Inl e')
          from handle_tool_execution_Inl[OF Cons loop[unfolded Inl]] h have st': "st' = st1" by simp
          with execute_tool_calls_Inl[OF loop[unfolded Inl]] obtain pre n' a' where
            log1: "log st' = log st3 @ pre @ [ToolCall n' a' (Inl e')]"
            and pre: "\<forall>ev \<in> set pre. \<exists>n a v. ev = ToolCall n a (Inr v)"
            by blast
          from pre have "backend_requests pre = []"
            by (intro backend_requests_tool_calls_only) blast
          with log1 log3 cfg at2 heap1 st' show ?thesis
            by (simp add: backend_requests_append)
        next
          case (Inr rs)
          from execute_tool_calls_Inr[OF loop[unfolded Inr]] obtain vs where
            log1: "log st1 = log st3 @ map2 (\<lambda>fc v. ToolCall (fc_name fc) (resolve_tool_args fc) (Inr v))
                                        (function_calls (content_parts c)) vs"
            by blast
          from handle_tool_execution_Inr[OF Cons loop[unfolded Inr] h] obtain fp stf out2 cs' where
            fp: "build_final_params self p cs' st1 = (fp, stf)"
            and gc2: "generate_content self fp stf = (out2, st')"
            by blast
          have wf1: "?a < length (heap st1)" and at1: "heap st1 ! ?a = ?D"
            using heap1 wf by simp_all
          from build_final_params_shared[OF wf1 refl cfg at1 fp]
          have cfp: "config fp = Some ?a" and heapf: "heap stf = heap st1" by simp_all
          from generate_content_effect[OF gc2] build_final_params_frame[OF fp] cfp heapf at1
          have "heap st' = heap st1"
            and "\<exists>req2. log st' = log st1 @ [BackendCall req2 out2] \<and> req_config req2 = Some ?D"
            by simp_all
          with log1 log3 cfg at2 heap1 show ?thesis
            by (auto simp: backend_requests_append tool_events_no_backend_requests)
        qed
      qed
    qed
  qed
  then show "heap st' = ?H"
    and "\<forall>req \<in> set (backend_requests (drop (length (log st)) (log st'))). req_config req = Some ?D"
    by simp_all
qed


lemma tools_sent_with_every_request:
  assumes "base_params self < length (heap st)"
    and "heap st ! base_params self \<noteq> []"
    and "ts \<noteq> []"
    and "generate_response self query h (Some ts) tmo st = (res, st')"
    and "req \<in> set (backend_requests (drop (length (log st)) (log st')))"
  shows "request_tools req = Some (gemini_tools ts)"
  using requests_share_base_params(2)[OF assms(1,2,4)] assms(3,5)
  by (simp add: request_tools_def shared_config_lookup)

lemma system_instruction_stays_in_base_params:
  assumes "base_params self < length (heap st)"
    and "heap st ! base_params self \<noteq> []"
    and "generate_response self query h tools tmo st = (res, st')"
  shows "map_of (heap st' ! base_params self) ''system_instruction''
           = Some (PDict [(''parts'', PList [PDict [(''text'', PStr (build_system_content h))]])])"
  using requests_share_base_params(1)[OF assms] assms(1)
  by (simp add: shared_config_lookup)

text \<open>A call sends one request to the backend, or two.\<close>

lemma one_or_two_requests:
  assumes gr: "generate_response self query h tools tmo st = (res, st')"
  shows "length (backend_requests (drop (length (log st)) (log st'))) \<in> {1, 2}"
proof -
  from generate_response_unfold[OF gr] obtain p st2 out st3 where
    p: "build_api_params self query h tools st = (p, st2)"
    and gc: "generate_content self p st2 = (out, st3)"
    and log3: "log st3 = log st @ [BackendCall \<lparr>req_model = model_name self,
               req_contents = [\<lparr>role = ''user'', parts = [TextPart query]\<rparr>],
               req_config = map_option (\<lambda>a. heap st2 ! a) (config p)\<rparr> out]"
    and res: "(res, st') =
             (case out of
                Inl e \<Rightarrow> (Inl e, st3)
              | Inr r \<Rightarrow>
                  (case candidates r of
                     [] \<Rightarrow> (Inl IndexError, st3)
                   | c # _ \<Rightarrow>
                       if finish_reason c = ''STOP'' \<and> tmo \<noteq> None
                       then handle_tool_execution self r p (the tmo) st3
                       else (Inr (response_text r), st3)))"
    by blast
  have direct: ?thesis if "st' = st3"
    using that log3 by simp
  show ?thesis
  proof (cases out)
    case (Inl e)
    with res direct show ?thesis by simp
  next
    case (Inr r)
    show ?thesis
    proof (cases "candidates r")
      case Nil
      with Inr res direct show ?thesis by simp
    next
      case (Cons c cs)
      show ?thesis
      proof (cases "finish_reason c = ''STOP'' \<and> tmo \<noteq> None")
        case False
        with Inr Cons res have "st' = st3" by auto
        with direct show ?thesis by simp
      next
        case True
        with Inr Cons res have h: "handle_tool_execution self r p (the tmo) st3 = (res, st')" by simp
        obtain r1 st1 where loop: "execute_tool_calls (the tmo) (content_parts c) [] st3 = (r1, st1)"
          by (cases "execute_tool_calls (the tmo) (content_parts c) [] st3")
        show ?thesis
        proof (cases r1)
          case (Inl e')
          from handle_tool_execution_Inl[OF Cons loop[unfolded Inl]] h have "st' = st1" by simp
          with execute_tool_calls_Inl[OF loop[unfolded Inl]] obtain pre n' a' where
            log1: "log st' = log st3 @ pre @ [ToolCall n' a' (Inl e')]"
            and pre: "\<forall>ev \<in> set pre. \<exists>n a v. ev = ToolCall n a (Inr v)"
            by blast
          from pre have "backend_requests pre = []"
            by (intro backend_requests_tool_calls_only) blast
          with log1 log3 show ?thesis
            by (simp add: backend_requests_append)
        next
          case (Inr rs)
          from execute_tool_calls_Inr[OF loop[unfolded Inr]] obtain vs where
            log1: "log st1 = log st3 @ map2 (\<lambda>fc v. ToolCall (fc_name fc) (resolve_tool_args fc) (Inr v))
                                        (function_calls (content_parts c)) vs"
            by blast
          from handle_tool_execution_Inr_log[OF Cons loop[unfolded Inr] h] obtain req2 out2 where
            "log st' = log st1 @ [BackendCall req2 out2]" by blast
          with log1 log3 show ?thesis
            by (simp add: backend_requests_append tool_events_no_backend_requests)
        qed
      qed
    qed
  qed
qed

section \<open>The example calls, step by step\<close>

lemmas run_defs =
  generate_response_def build_api_params_def build_final_params_def handle_tool_execution_def
  set_config_entry_def generate_content_def gemini_tools_def resolve_tool_args_def
  build_system_content_def init_def new_generator_def new_state_def empty_state_def
  scripted_client_def const_tool_manager_def failing_tool_manager_def
  text_response_def tool_call_response_def search_call_def bare_search_call_def
  truncated_response_def system_config_def first_request_def Let_def

lemma new_generator_fields:
  "base_params (new_generator rs) = 0" "model_name (new_generator rs) = ''gemini-2.0-flash''"
  by (simp_all add: new_generator_def init_def empty_state_def)

lemma new_state_fields:
  "heap (new_state rs) = [[(''temperature'', PInt 0), (''max_output_tokens'', PInt 800)]]"
  "log (new_state rs) = []" "world (new_state rs) = 0"
  by (simp_all add: new_state_def init_def empty_state_def)

lemma call_plain_run:
  "call_plain =
    (Inr (Some ''4.''),
     \<lparr>heap = [system_config SYSTEM_PROMPT], world = 1,
      log = [BackendCall (first_request ''What is 2+2?'' (system_config SYSTEM_PROMPT))
               (Inr (text_response ''STOP'' ''4.''))]\<rparr>)"
  by (simp add: call_plain_def run_defs SYSTEM_PROMPT_nonempty)

lemma call_with_history_run:
  "call_with_history =
    (Inr (Some ''4.''),
     \<lparr>heap = [system_config
                (SYSTEM_PROMPT @ [CHR 0x0A, CHR 0x0A] @ ''Previous conversation:'' @ [CHR 0x0A] @ ''User: hi'')],
      world = 1,
      log = [BackendCall
               (first_request ''What is 2+2?''
                  (system_config
                     (SYSTEM_PROMPT @ [CHR 0x0A, CHR 0x0A] @ ''Previous conversation:'' @ [CHR 0x0A] @ ''User: hi'')))
               (Inr (text_response ''STOP'' ''4.''))]\<rparr>)"
  by (simp add: call_with_history_def run_defs SYSTEM_PROMPT_nonempty)


lemma call_search_run:
  "call_search =
    (Inr (Some ''X is ...''),
     \<lparr>heap = [system_config SYSTEM_PROMPT
                @ [(''tools'', PList [PDict [(''function_declarations'', PList [search_tool])]])]],
      world = 2,
      log = [BackendCall
               (first_request ''Explain topic X''
                  (system_config SYSTEM_PROMPT
                     @ [(''tools'', PList [PDict [(''function_declarations'', PList [search_tool])]])]))
               (Inr (tool_call_response [search_call])),
             ToolCall ''search_course_content'' [(''query'', PStr ''topic X'')] (Inr (PStr ''X is ...'')),
             BackendCall
               \<lparr>req_model = ''gemini-2.0-flash'',
                req_contents =
                  [\<lparr>role = ''user'', parts = [TextPart ''Explain topic X'']\<rparr>,
                   \<lparr>role = ''model'',
                    parts = [ModelPart \<lparr>part_text = None, part_function_call = Some search_call\<rparr>]\<rparr>,
                   \<lparr>role = ''user'',
                    parts = [FunctionResponse ''search_course_content'' (PStr ''X is ...'')]\<rparr>],
                req_config = Some (system_config SYSTEM_PROMPT
                  @ [(''tools'', PList [PDict [(''function_declarations'', PList [search_tool])]])])\<rparr>
               (Inr (text_response ''STOP'' ''X is ...''))]\<rparr>)"
  by (simp add: call_search_def run_defs SYSTEM_PROMPT_nonempty)

lemma call_bare_search_run:
  "call_bare_search =
    (Inr (Some ''X is ...''),
     \<lparr>heap = [system_config SYSTEM_PROMPT
                @ [(''tools'', PList [PDict [(''function_declarations'', PList [search_tool])]])]],
      world = 2,
      log = [BackendCall
               (first_request ''Explain topic X''
                  (system_config SYSTEM_PROMPT
                     @ [(''tools'', PList [PDict [(''function_declarations'', PList [search_tool])]])]))
               (Inr (tool_call_response [bare_search_call])),
             ToolCall ''search_course_content'' [(''query'', PStr ''default query'')] (Inr (PStr ''X is ...'')),
             BackendCall
               \<lparr>req_model = ''gemini-2.0-flash'',
                req_contents =
                  [\<lparr>role = ''user'', parts = [TextPart ''Explain topic X'']\<rparr>,
                   \<lparr>role = ''model'',
                    parts = [ModelPart \<lparr>part_text = None, part_function_call = Some bare_search_call\<rparr>]\<rparr>,
                   \<lparr>role = ''user'',
                    parts = [FunctionResponse ''search_course_content'' (PStr ''X is ...'')]\<rparr>],
                req_config = Some (system_config SYSTEM_PROMPT
                  @ [(''tools'', PList [PDict [(''function_declarations'', PList [search_tool])]])])\<rparr>
               (Inr (text_response ''STOP'' ''X is ...''))]\<rparr>)"
  by (simp add: call_bare_search_def run_defs SYSTEM_PROMPT_nonempty)

lemma call_failing_search_run:
  "call_failing_search =
    (Inl (Raised ''search failed''),
     \<lparr>heap = [system_config SYSTEM_PROMPT
                @ [(''tools'', PList [PDict [(''function_declarations'', PList [search_tool])]])]],
      world = 1,
      log = [BackendCall
               (first_request ''Explain topic X''
                  (system_config SYSTEM_PROMPT
                     @ [(''tools'', PList [PDict [(''function_declarations'', PList [search_tool])]])]))
               (Inr (tool_call_response [search_call])),
             ToolCall ''search_course_content'' [(''query'', PStr ''topic X'')]
               (Inl (Raised ''search failed''))]\<rparr>)"
  by (simp add: call_failing_search_def run_defs SYSTEM_PROMPT_nonempty)


section \<open>The claims of the specification\<close>

subsection \<open>One request when there are no tools\<close>



subsection \<open>The choice of path\<close>

text \<open>
  C8. Let the first request of a call be answered by a response \<open>r\<close> whose first
  candidate is \<open>c\<close>. If \<open>c\<close> stopped normally and a tool manager was supplied, the call
  is the tool-execution path run on \<open>r\<close>, and that path calls a collaborator again
  (\<open>evs\<close>, the calls after the first, is not empty). In every other case nothing is
  called after the first request and the text of \<open>r\<close> is returned.
\<close>

theorem tool_path_condition:
  assumes gr: "generate_response self query h tools tmo st = (res, st')"
    and first: "log st' = log st @ BackendCall req (Inr r) # evs"
    and c: "candidates r = c # cs"
  shows "if finish_reason c = ''STOP'' \<and> tmo \<noteq> None
         then evs \<noteq> [] \<and>
              (\<exists>st3. log st3 = log st @ [BackendCall req (Inr r)] \<and>
                 handle_tool_execution self r (fst (build_api_params self query h tools st)) (the tmo) st3
                   = (res, st'))
         else evs = [] \<and> res = Inr (response_text r)"
proof -
  from generate_response_first_response[OF gr first c] obtain p st2 st3 where
    p: "build_api_params self query h tools st = (p, st2)"
    and log3: "log st3 = log st @ [BackendCall req (Inr r)]"
    and run: "(if finish_reason c = ''STOP'' \<and> tmo \<noteq> None
               then handle_tool_execution self r p (the tmo) st3
               else (Inr (response_text r), st3)) = (res, st')"
    by blast
  show ?thesis
  proof (cases "finish_reason c = ''STOP'' \<and> tmo \<noteq> None")
    case True
    with run have h: "handle_tool_execution self r p (the tmo) st3 = (res, st')" by simp
    from handle_tool_execution_log[OF c h] log3 first have "evs \<noteq> []" by auto
    with True h log3 p show ?thesis by auto
  next
    case False
    with run have "res = Inr (response_text r)" "st' = st3" by auto
    with False log3 first show ?thesis by auto
  qed
qed

theorem tool_path_condition_witness:
  "tl (log (snd call_search)) \<noteq> [] \<and> fst call_search = Inr (Some ''X is ...'')
   \<and> tl (log (snd call_plain)) = [] \<and> fst call_plain = Inr (Some ''4.'')"
proof -
  have gr1: "generate_response (new_generator [tool_call_response [search_call], text_response ''STOP'' ''X is ...'']) ''Explain topic X'' None (Some [search_tool])
               (Some (const_tool_manager (PStr ''X is ...''))) (new_state [tool_call_response [search_call], text_response ''STOP'' ''X is ...''])
             = (fst call_search, snd call_search)"
    by (simp add: call_search_def)
  have first1: "log (snd call_search) =
      log (new_state [tool_call_response [search_call], text_response ''STOP'' ''X is ...'']) @
      BackendCall (first_request ''Explain topic X'' (system_config SYSTEM_PROMPT @ [(''tools'', PList [PDict [(''function_declarations'', PList [search_tool])]])])) (Inr (tool_call_response [search_call]))
        # tl (log (snd call_search))"
    by (simp add: call_search_run new_state_fields)
  have c1: "candidates (tool_call_response [search_call])
            = hd (candidates (tool_call_response [search_call])) # []"
    by (simp add: tool_call_response_def)
  have gr2: "generate_response (new_generator [text_response ''STOP'' ''4.'']) ''What is 2+2?'' None None None (new_state [text_response ''STOP'' ''4.''])
             = (fst call_plain, snd call_plain)"
    by (simp add: call_plain_def)
  have first2: "log (snd call_plain) =
      log (new_state [text_response ''STOP'' ''4.'']) @
      BackendCall (first_request ''What is 2+2?'' (system_config SYSTEM_PROMPT))
        (Inr (text_response ''STOP'' ''4.'')) # tl (log (snd call_plain))"
    by (simp add: call_plain_run new_state_fields)
  have c2: "candidates (text_response ''STOP'' ''4.'')
            = hd (candidates (text_response ''STOP'' ''4.'')) # []"
    by (simp add: text_response_def)
  from tool_path_condition[OF gr1 first1 c1] tool_path_condition[OF gr2 first2 c2]
  show ?thesis
    by (simp add: call_search_run call_plain_run)
qed

subsection \<open>The system content\<close>

text \<open>
  C9. Every request that a call sends to the backend, the first one and the follow-up
  one, carries as its system instruction the static system prompt exactly when the
  conversation history is absent or empty, and otherwise the static system prompt
  followed by two line feeds, the line \<open>Previous conversation:\<close> and the history.
  The generator's \<open>base_params\<close> refers to a dictionary of the store, as it does from
  construction on.
\<close>

theorem system_content_sent:
  assumes wf: "base_params self < length (heap st)"
    and gr: "generate_response self query h tools tmo st = (res, st')"
    and req: "req \<in> set (backend_requests (drop (length (log st)) (log st')))"
  shows "\<exists>cfg. req_config req = Some cfg
           \<and> map_of cfg ''system_instruction'' =
               Some (PDict [(''parts'', PList [PDict [(''text'', PStr
                 (if h = None \<or> h = Some [] then SYSTEM_PROMPT
                  else SYSTEM_PROMPT @ [CHR 0x0A, CHR 0x0A] @ ''Previous conversation:'' @ [CHR 0x0A] @ the h))]])])"
proof -
  let ?v = "PDict [(''parts'', PList [PDict [(''text'', PStr (build_system_content h))]])]"
  let ?good = "\<lambda>req. \<exists>cfg. req_config req = Some cfg \<and> map_of cfg ''system_instruction'' = Some ?v"
  from generate_response_unfold[OF gr] obtain p st2 out st3 where
    p: "build_api_params self query h tools st = (p, st2)"
    and gc: "generate_content self p st2 = (out, st3)"
    and log3: "log st3 = log st @ [BackendCall \<lparr>req_model = model_name self,
               req_contents = [\<lparr>role = ''user'', parts = [TextPart query]\<rparr>],
               req_config = map_option (\<lambda>a. heap st2 ! a) (config p)\<rparr> out]"
    and res: "(res, st') =
             (case out of
                Inl e \<Rightarrow> (Inl e, st3)
              | Inr r \<Rightarrow>
                  (case candidates r of
                     [] \<Rightarrow> (Inl IndexError, st3)
                   | c # _ \<Rightarrow>
                       if finish_reason c = ''STOP'' \<and> tmo \<noteq> None
                       then handle_tool_execution self r p (the tmo) st3
                       else (Inr (response_text r), st3)))"
    by blast
  let ?req1 = "\<lparr>req_model = model_name self,
               req_contents = [\<lparr>role = ''user'', parts = [TextPart query]\<rparr>],
               req_config = map_option (\<lambda>a. heap st2 ! a) (config p)\<rparr>"
  from build_api_params_system_instruction[OF wf p] obtain a where
    a: "config p = Some a" "map_of (heap st2 ! a) ''system_instruction'' = Some ?v"
    and wf2: "base_params self < length (heap st2)"
    by blast
  from a have good1: "?good ?req1" by simp
  have heap3: "heap st3 = heap st2"
    by (rule generate_content_effect(1)[OF gc])
  have direct: "?good req" if "st' = st3"
    using that req log3 good1 by simp
  have "?good req"
  proof (cases out)
    case (Inl e)
    with res direct show ?thesis by simp
  next
    case (Inr r)
    show ?thesis
    proof (cases "candidates r")
      case Nil
      with Inr res direct show ?thesis by simp
    next
      case (Cons c cs)
      show ?thesis
      proof (cases "finish_reason c = ''STOP'' \<and> tmo \<noteq> None")
        case False
        with Inr Cons res have "st' = st3" by auto
        with direct show ?thesis by simp
      next
        case True
        with Inr Cons res have h: "handle_tool_execution self r p (the tmo) st3 = (res, st')" by simp
        obtain r1 st1 where loop: "execute_tool_calls (the tmo) (content_parts c) [] st3 = (r1, st1)"
          by (cases "execute_tool_calls (the tmo) (content_parts c) [] st3")
        have heap1: "heap st1 = heap st2"
          using execute_tool_calls_heap[OF loop] heap3 by simp
        show ?thesis
        proof (cases r1)
          case (Inl e')
          from handle_tool_execution_Inl[OF Cons loop[unfolded Inl]] h have "st' = st1" by simp
          with execute_tool_calls_Inl[OF loop[unfolded Inl]] obtain pre n' a' where
            log1: "log st' = log st3 @ pre @ [ToolCall n' a' (Inl e')]"
            and pre: "\<forall>ev \<in> set pre. \<exists>n a v. ev = ToolCall n a (Inr v)"
            by blast
          from pre have "backend_requests pre = []"
            by (intro backend_requests_tool_calls_only) blast
          with req log1 log3 good1 show ?thesis
            by (simp add: backend_requests_append)
        next
          case (Inr rs)
          from execute_tool_calls_Inr[OF loop[unfolded Inr]] obtain vs where
            log1: "log st1 = log st3 @ map2 (\<lambda>fc v. ToolCall (fc_name fc) (resolve_tool_args fc) (Inr v))
                                        (function_calls (content_parts c)) vs"
            by blast
          from handle_tool_execution_Inr[OF Cons loop[unfolded Inr] h] obtain fp stf out2 cs' where
            fp: "build_final_params self p cs' st1 = (fp, stf)"
            and gc2: "generate_content self fp stf = (out2, st')"
            by blast
          from build_final_params_system_instruction[OF _ a(1) _ _ fp] wf2 a(2) heap1
          obtain b where b: "config fp = Some b" "map_of (heap stf ! b) ''system_instruction'' = Some ?v"
            by auto
          from generate_content_effect(2)[OF gc2] build_final_params_frame[OF fp] b
          obtain req2 where log': "log st' = log st1 @ [BackendCall req2 out2]" and "?good req2"
            by simp
          with req log1 log3 good1 show ?thesis
            by (auto simp: backend_requests_append tool_events_no_backend_requests)
        qed
      qed
    qed
  qed
  then show ?thesis by (simp add: build_system_content_cases)
qed

theorem system_content_sent_witness:
  "first_request ''What is 2+2?'' (system_config (SYSTEM_PROMPT @ [CHR 0x0A, CHR 0x0A] @ ''Previous conversation:'' @ [CHR 0x0A] @ ''User: hi''))
     \<in> set (backend_requests (log (snd call_with_history)))
   \<and> (\<exists>cfg. req_config (first_request ''What is 2+2?'' (system_config (SYSTEM_PROMPT @ [CHR 0x0A, CHR 0x0A] @ ''Previous conversation:'' @ [CHR 0x0A] @ ''User: hi''))) = Some cfg
         \<and> map_of cfg ''system_instruction''
             = Some (PDict [(''parts'', PList [PDict [(''text'', PStr (SYSTEM_PROMPT @ [CHR 0x0A, CHR 0x0A] @ ''Previous conversation:'' @ [CHR 0x0A] @ ''User: hi''))]])]))
   \<and> first_request ''What is 2+2?'' (system_config SYSTEM_PROMPT)
     \<in> set (backend_requests (log (snd call_plain)))
   \<and> (\<exists>cfg. req_config (first_request ''What is 2+2?'' (system_config SYSTEM_PROMPT)) = Some cfg
         \<and> map_of cfg ''system_instruction''
             = Some (PDict [(''parts'', PList [PDict [(''text'', PStr SYSTEM_PROMPT)]])]))"
proof -
  have wf: "base_params (new_generator [text_response ''STOP'' ''4.'']) < length (heap (new_state [text_response ''STOP'' ''4.'']))"
    by (simp add: new_generator_fields new_state_fields)
  have gr1: "generate_response (new_generator [text_response ''STOP'' ''4.'']) ''What is 2+2?'' (Some ''User: hi'') None None
               (new_state [text_response ''STOP'' ''4.'']) = (fst call_with_history, snd call_with_history)"
    by (simp add: call_with_history_def)
  have req1: "first_request ''What is 2+2?'' (system_config (SYSTEM_PROMPT @ [CHR 0x0A, CHR 0x0A] @ ''Previous conversation:'' @ [CHR 0x0A] @ ''User: hi''))
      \<in> set (backend_requests (drop (length (log (new_state [text_response ''STOP'' ''4.'']))) (log (snd call_with_history))))"
    by (simp add: call_with_history_run new_state_fields)
  have gr2: "generate_response (new_generator [text_response ''STOP'' ''4.'']) ''What is 2+2?'' None None None (new_state [text_response ''STOP'' ''4.''])
             = (fst call_plain, snd call_plain)"
    by (simp add: call_plain_def)
  have req2: "first_request ''What is 2+2?'' (system_config SYSTEM_PROMPT)
      \<in> set (backend_requests (drop (length (log (new_state [text_response ''STOP'' ''4.'']))) (log (snd call_plain))))"
    by (simp add: call_plain_run new_state_fields)
  from system_content_sent[OF wf gr1 req1] system_content_sent[OF wf gr2 req2] req1 req2
  show ?thesis
    by (simp add: new_state_fields)
qed

subsection \<open>The tool-execution path\<close>






text \<open>
  C5. If any tool invocation made during a call raises an exception, the call fails
  with that exception, and the first request is the only request the backend has
  received: there is no follow-up request and no text is returned.
\<close>

theorem tool_failure_aborts:
  assumes gr: "generate_response self query h tools tmo st = (res, st')"
    and raised: "ToolCall n a (Inl e) \<in> set (drop (length (log st)) (log st'))"
  shows "res = Inl e \<and> length (backend_requests (drop (length (log st)) (log st'))) = 1"
proof -
  from generate_response_unfold[OF gr] obtain p st2 out st3 where
    p: "build_api_params self query h tools st = (p, st2)"
    and gc: "generate_content self p st2 = (out, st3)"
    and log3: "log st3 = log st @ [BackendCall \<lparr>req_model = model_name self,
               req_contents = [\<lparr>role = ''user'', parts = [TextPart query]\<rparr>],
               req_config = map_option (\<lambda>a. heap st2 ! a) (config p)\<rparr> out]"
    and res: "(res, st') =
             (case out of
                Inl e \<Rightarrow> (Inl e, st3)
              | Inr r \<Rightarrow>
                  (case candidates r of
                     [] \<Rightarrow> (Inl IndexError, st3)
                   | c # _ \<Rightarrow>
                       if finish_reason c = ''STOP'' \<and> tmo \<noteq> None
                       then handle_tool_execution self r p (the tmo) st3
                       else (Inr (response_text r), st3)))"
    by blast
  have direct: False if "st' = st3"
    using that raised log3 by simp
  show ?thesis
  proof (cases out)
    case (Inl e')
    with res direct show ?thesis by simp
  next
    case (Inr r)
    show ?thesis
    proof (cases "candidates r")
      case Nil
      with Inr res direct show ?thesis by simp
    next
      case (Cons c cs)
      show ?thesis
      proof (cases "finish_reason c = ''STOP'' \<and> tmo \<noteq> None")
        case False
        with Inr Cons res have "st' = st3" by auto
        with direct show ?thesis by simp
      next
        case True
        with Inr Cons res have h: "handle_tool_execution self r p (the tmo) st3 = (res, st')" by simp
        obtain r1 st1 where loop: "execute_tool_calls (the tmo) (content_parts c) [] st3 = (r1, st1)"
          by (cases "execute_tool_calls (the tmo) (content_parts c) [] st3")
        show ?thesis
        proof (cases r1)
          case (Inl e')
          from handle_tool_execution_Inl[OF Cons loop[unfolded Inl]] h
          have eq: "res = Inl e'" "st' = st1" by simp_all
          from execute_tool_calls_Inl[OF loop[unfolded Inl]] obtain pre n' a' where
            log1: "log st1 = log st3 @ pre @ [ToolCall n' a' (Inl e')]"
            and pre: "\<forall>ev \<in> set pre. \<exists>n a v. ev = ToolCall n a (Inr v)"
            by blast
          from raised eq log1 log3 pre have "e = e'" by auto
          moreover from pre have "backend_requests pre = []"
            by (intro backend_requests_tool_calls_only) blast
          ultimately show ?thesis using eq log1 log3
            by (simp add: backend_requests_append)
        next
          case (Inr rs)
          from execute_tool_calls_Inr[OF loop[unfolded Inr]] obtain vs where
            log1: "log st1 = log st3 @ map2 (\<lambda>fc v. ToolCall (fc_name fc) (resolve_tool_args fc) (Inr v))
                                        (function_calls (content_parts c)) vs"
            by blast
          from handle_tool_execution_Inr_log[OF Cons loop[unfolded Inr] h] obtain req2 out2 where
            "log st' = log st1 @ [BackendCall req2 out2]" by blast
          with raised log1 log3 have False by (auto simp: in_set_zip)
          then show ?thesis ..
        qed
      qed
    qed
  qed
qed

theorem tool_failure_aborts_witness:
  "fst call_failing_search = Inl (Raised ''search failed'')
   \<and> length (backend_requests (log (snd call_failing_search))) = 1"
proof -
  have gr: "generate_response (new_generator [tool_call_response [search_call], text_response ''STOP'' ''X is ...'']) ''Explain topic X'' None (Some [search_tool])
              (Some failing_tool_manager) (new_state [tool_call_response [search_call], text_response ''STOP'' ''X is ...''])
            = (fst call_failing_search, snd call_failing_search)"
    by (simp add: call_failing_search_def)
  have raised: "ToolCall ''search_course_content'' [(''query'', PStr ''topic X'')]
                  (Inl (Raised ''search failed''))
      \<in> set (drop (length (log (new_state [tool_call_response [search_call], text_response ''STOP'' ''X is ...'']))) (log (snd call_failing_search)))"
    by (simp add: call_failing_search_run new_state_fields)
  from tool_failure_aborts[OF gr raised] show ?thesis
    by (simp add: new_state_fields)
qed

subsection \<open>A response without text\<close>




subsection \<open>The shared configuration dictionary\<close>

text \<open>
  C1, evaluated on the call \<open>call_search\<close>: a new generator is called with one tool
  declaration and a tool manager, and the backend asks for a search. Both requests of
  the call, the first one and the follow-up one, carry the tool declaration in the
  \<open>"tools"\<close> entry of their configuration: \<open>final_params["config"]\<close> is
  \<open>self.base_params\<close>, the dictionary into which the first request wrote that entry.
\<close>

theorem followup_request_carries_tools:
  "map request_tools (backend_requests (log (snd call_search))) = [Some (PList [PDict [(''function_declarations'', PList [search_tool])]]), Some (PList [PDict [(''function_declarations'', PList [search_tool])]])]"
  by (simp add: call_search_run request_tools_def first_request_def system_config_def)

text \<open>
  C3, evaluated on the call \<open>call_plain\<close>: before the call the generator's
  \<open>base_params\<close> is the dictionary built by the constructor; after the call, which has
  neither history nor tools nor a tool manager, the same dictionary has a third entry,
  the system instruction.
\<close>

theorem base_params_mutated_by_call:
  "heap (new_state [text_response ''STOP'' ''4.'']) ! base_params (new_generator [text_response ''STOP'' ''4.''])
     = [(''temperature'', PInt 0), (''max_output_tokens'', PInt 800)]
   \<and> heap (snd call_plain) ! base_params (new_generator [text_response ''STOP'' ''4.''])
     = [(''temperature'', PInt 0), (''max_output_tokens'', PInt 800),
        (''system_instruction'', PDict [(''parts'', PList [PDict [(''text'', PStr SYSTEM_PROMPT)]])])]"
  by (simp add: call_plain_run new_state_fields new_generator_fields system_config_def)

subsection \<open>A tool call without its query\<close>

text \<open>
  C2, evaluated on the call \<open>call_bare_search\<close>: the backend asks for
  \<open>search_course_content\<close> without arguments. The tool manager is invoked with the
  invented argument \<open>query = 'default query'\<close>, and the call returns the follow-up
  text; no error reaches the caller.
\<close>

theorem missing_query_is_replaced:
  "function_calls (content_parts (hd (candidates (tool_call_response [bare_search_call]))))
     = [\<lparr>fc_name = ''search_course_content'', fc_args = None\<rparr>]
   \<and> tool_calls (log (snd call_bare_search))
     = [(''search_course_content'', [(''query'', PStr ''default query'')])]
   \<and> fst call_bare_search = Inr (Some ''X is ...'')"
  by (simp add: call_bare_search_run first_request_def tool_call_response_def bare_search_call_def)

end
